theory Spec2Isabelle
  imports Main
begin

section \<open>The driver \<open>examples/01-hello-world/main.c\<close>\<close>

text \<open>
  The driver reads \<open>input.md\<close> into a NUL-terminated buffer, calls the conversion entry
  point \<open>C_IMD1_MDToHTML\<close>, prints the returned HTML to \<open>output.html\<close> and frees the
  two returned values. Its C library calls are modelled on a POSIX system with a 64-bit
  \<open>long\<close> and \<open>size_t\<close>, where text and binary streams coincide. \<open>fopen\<close> and \<open>malloc\<close> can
  fail, and the driver checks them. Positioning and reading the input stream can fail as
  well, and the driver checks none of their results: the model follows what the calls
  then return. Printing to a stream that was opened does not fail.
  A \<open>char\<close> is a byte; a buffer and a C string are byte lists.
\<close>

type_synonym bytes = "char list"

abbreviation NUL :: char where
  "NUL \<equiv> CHR 0x00"

subsection \<open>The C library calls the driver makes\<close>

text \<open>
  An input stream: \<open>data\<close> are the bytes it delivers when read from its start, \<open>pos\<close>
  is the read position, and \<open>end_offset\<close> is the offset that seeking to the end reaches.
  On a regular file that is read without error \<open>end_offset\<close> is the length of \<open>data\<close>.
  It is negative on a stream that cannot be positioned (a FIFO), and it differs from
  the length of \<open>data\<close> when the file reports another size than it delivers, shrinks
  or grows after the size was taken, or a read fails.
\<close>

record stream =
  data :: bytes
  pos :: nat
  end_offset :: int

text \<open>
  \<open>fseek(fin, 0, SEEK_END)\<close>, \<open>fseek(fin, 0, SEEK_SET)\<close> and \<open>ftell(fin)\<close>. On a stream
  that cannot be positioned \<open>fseek\<close> fails and leaves the position, and \<open>ftell\<close>
  returns -1.
\<close>

definition fseek_end :: "stream \<Rightarrow> stream" where
  "fseek_end s = (if end_offset s < 0 then s else s\<lparr>pos := nat (end_offset s)\<rparr>)"

definition fseek_set :: "stream \<Rightarrow> stream" where
  "fseek_set s = (if end_offset s < 0 then s else s\<lparr>pos := 0\<rparr>)"

definition ftell :: "stream \<Rightarrow> int" where
  "ftell s = (if end_offset s < 0 then - 1 else int (pos s))"

text \<open>
  The conversion of a \<open>long\<close> to \<open>size_t\<close>, as in \<open>sizeof(char) * (size + 1)\<close> and in
  the count passed to \<open>fread\<close>: a negative value wraps around (-1 becomes \<open>SIZE_MAX\<close>), a
  file offset, which is below \<open>2^63\<close>, is unchanged.
\<close>

definition size_t :: "int \<Rightarrow> nat" where
  "size_t i = (if i < 0 then nat (i + 2 ^ 64) else nat i)"

text \<open>
  \<open>fread buffer 1 n fin\<close> copies the next \<open>n\<close> bytes of the stream, or as many as it
  delivers, over the start of the buffer, and leaves the rest of the buffer as it was.
  Writing past the end of the buffer is undefined behaviour: \<open>None\<close>.
\<close>

definition fread :: "bytes \<Rightarrow> nat \<Rightarrow> stream \<Rightarrow> (bytes \<times> stream) option" where
  "fread buffer n s =
     (let chunk = take n (drop (pos s) (data s)); k = length chunk
      in if k \<le> length buffer
         then Some (chunk @ drop k buffer, s\<lparr>pos := pos s + k\<rparr>)
         else None)"

text \<open>
  \<open>buffer[i] = c\<close>: a store outside the allocated block is undefined behaviour.
\<close>

definition store :: "bytes \<Rightarrow> int \<Rightarrow> char \<Rightarrow> bytes option" where
  "store buffer i c =
     (if 0 \<le> i \<and> nat i < length buffer then Some (buffer[nat i := c]) else None)"

text \<open>
  \<open>fprintf\<close> called with a format and no further argument. Ordinary characters are
  copied; the conversion specification \<open>%%\<close> writes one \<open>%\<close>; every other conversion
  specification fetches an argument that was not passed, and an incomplete one is
  invalid: undefined behaviour, \<open>None\<close>.
\<close>

fun fprintf :: "bytes \<Rightarrow> bytes option" where
  "fprintf [] = Some []"
| "fprintf (c # cs) =
     (if c = CHR ''%'' then
        (case cs of
           [] \<Rightarrow> None
         | d # ds \<Rightarrow> if d = CHR ''%'' then map_option ((#) CHR ''%'') (fprintf ds) else None)
      else map_option ((#) c) (fprintf cs))"

subsection \<open>The environment and what a run leaves behind\<close>

text \<open>
  The environment of one run: the bytes that \<open>input.md\<close> delivers (\<open>None\<close> when it cannot
  be opened for update), the offset that seeking to its end reaches, whether \<open>malloc\<close>
  returns \<open>NULL\<close>, the indeterminate bytes a fresh block holds, and whether
  \<open>output.html\<close> can be opened for writing.
\<close>

record env =
  input_md :: "bytes option"
  input_end :: int
  malloc_fails :: bool
  fresh :: "nat \<Rightarrow> char"
  output_html_opens :: bool

definition fopen_r :: "env \<Rightarrow> stream option" where
  "fopen_r e =
     (case input_md e of
        None \<Rightarrow> None
      | Some file \<Rightarrow> Some \<lparr>data = file, pos = 0, end_offset = input_end e\<rparr>)"

definition malloc :: "env \<Rightarrow> nat \<Rightarrow> bytes option" where
  "malloc e n = (if malloc_fails e then None else Some (map (fresh e) [0..<n]))"

text \<open>
  \<open>struct C_IMD1_MDToHTML_return\<close> is declared in \<open>libimd1.h\<close>, which is not among the
  sources; the driver uses its two fields \<open>r0\<close> (a C string, the format it prints) and
  \<open>r1\<close>, both of which it passes to \<open>free\<close>. The entry point itself is a parameter of the
  model: a function from the buffer it is given to the struct it returns.
\<close>

record C_IMD1_MDToHTML_return =
  r0 :: bytes
  r1 :: bytes

datatype exit = Returned int | Undefined

datatype pointer = Buffer | R0 | R1

record run =
  status :: exit
  stderr_text :: bytes
  converted :: "bytes list"
  written :: "bytes option"
  freed :: "pointer list"

text \<open>
  \<open>status\<close> is what \<open>main\<close> returns, or \<open>Undefined\<close> when the run has undefined
  behaviour; \<open>converted\<close> lists the buffers passed to \<open>C_IMD1_MDToHTML\<close>, in call order;
  \<open>written\<close> is what was printed to \<open>output.html\<close> (\<open>None\<close> when the driver printed
  nothing to it, or nothing that is defined); \<open>freed\<close> lists the arguments of \<open>free\<close>.
\<close>

definition start :: run where
  "start = \<lparr>status = Returned 0, stderr_text = [], converted = [], written = None, freed = []\<rparr>"

definition fail :: "run \<Rightarrow> bytes \<Rightarrow> run" where
  "fail w msg =
     (case fprintf msg of
        None \<Rightarrow> w\<lparr>status := Undefined\<rparr>
      | Some out \<Rightarrow> w\<lparr>stderr_text := stderr_text w @ out, status := Returned (- 1)\<rparr>)"

subsection \<open>\<open>main\<close>\<close>

definition main :: "(bytes \<Rightarrow> C_IMD1_MDToHTML_return) \<Rightarrow> env \<Rightarrow> run" where
  "main C_IMD1_MDToHTML e =
     (case fopen_r e of
        None \<Rightarrow> fail start ''Could not open input.md''
      | Some fin \<Rightarrow>
          let fin = fseek_end fin;
              size = ftell fin;
              fin = fseek_set fin
          in (case malloc e (size_t (size + 1)) of
                None \<Rightarrow> fail start ''Could not allocate memory for buffer''
              | Some buffer \<Rightarrow>
                  (case fread buffer (size_t size) fin of
                     None \<Rightarrow> start\<lparr>status := Undefined\<rparr>
                   | Some (buffer, fin) \<Rightarrow>
                       (case store buffer size NUL of
                          None \<Rightarrow> start\<lparr>status := Undefined\<rparr>
                        | Some buffer \<Rightarrow>
                            let r = C_IMD1_MDToHTML buffer;
                                w = start\<lparr>converted := [buffer]\<rparr>
                            in if \<not> output_html_opens e
                               then fail w ''Could not open output.html''
                               else (case fprintf (r0 r) of
                                       None \<Rightarrow> w\<lparr>status := Undefined\<rparr>
                                     | Some out \<Rightarrow>
                                         w\<lparr>written := Some out, freed := [R0, R1],
                                           status := Returned 0\<rparr>)))))"

text \<open>
  The two \<open>fclose\<close> calls change nothing the model records. \<open>buffer\<close> is never passed
  to \<open>free\<close>, and the two returned values are freed only on the path that returns 0.
\<close>

subsection \<open>Example environments\<close>

definition hello_env :: env where
  "hello_env =
     \<lparr>input_md = Some ''# Hello'', input_end = 7, malloc_fails = False,
      fresh = (\<lambda>_. CHR ''?''), output_html_opens = True\<rparr>"

text \<open>
  \<open>input.md\<close> as a FIFO that delivers the same bytes: it opens, but cannot be
  positioned. And \<open>input.md\<close> as a file of seven bytes of which a failing read delivers
  only the first two.
\<close>

definition fifo_env :: env where
  "fifo_env = hello_env\<lparr>input_end := - 1\<rparr>"

definition short_read_env :: env where
  "short_read_env = hello_env\<lparr>input_md := Some ''# ''\<rparr>"

definition hello_html :: "bytes \<Rightarrow> C_IMD1_MDToHTML_return" where
  "hello_html buffer = \<lparr>r0 = ''<h1>Hello</h1>'', r1 = []\<rparr>"

definition percent_html :: "bytes \<Rightarrow> C_IMD1_MDToHTML_return" where
  "percent_html buffer = \<lparr>r0 = ''<p>%s</p>'', r1 = []\<rparr>"

section \<open>The reference table of the conversion core\<close>

text \<open>
  The conversion core behind \<open>C_IMD1_MDToHTML\<close> is not among the sources: only the
  driver above is. The part of it that claim C7 is about, the table of link-reference
  definitions, is modelled here from the specification's data model (section 3,
  "Reference table entry") and its block parser (section 4.2, link-reference
  collection). The block parser's harvesting of the definition lines is not modelled:
  the table is built from the definitions it found, in document order.
\<close>

text \<open>
  Modelled from the spec: a link-reference definition \<open>[label]: destination "title"\<close>
  as the block parser extracts it (the parser is missing from the sources).
\<close>

record link_definition =
  label :: string
  destination :: string
  title :: "string option"

text \<open>
  Modelled from the spec: a reference table entry without its key, "destination,
  optional title" (the core's table type is missing from the sources).
\<close>

record reference =
  ref_destination :: string
  ref_title :: "string option"

type_synonym reference_table = "string \<rightharpoonup> reference"

text \<open>
  Modelled from the spec: the key of an entry is its label "case-folded,
  whitespace-collapsed" (the core's normalisation is missing from the sources). Case
  folding is taken on the ASCII letters, bytes outside ASCII are kept; a run of spaces,
  tabs and line ends collapses to one space.
\<close>

definition is_whitespace :: "char \<Rightarrow> bool" where
  "is_whitespace c \<longleftrightarrow> c \<in> set [CHR '' '', CHR 0x09, CHR 0x0A, CHR 0x0D]"

definition case_fold :: "char \<Rightarrow> char" where
  "case_fold c =
     (let n = of_char c :: nat
      in if of_char CHR ''A'' \<le> n \<and> n \<le> of_char CHR ''Z'' then char_of (n + 32) else c)"

fun whitespace_collapse :: "string \<Rightarrow> string" where
  "whitespace_collapse [] = []"
| "whitespace_collapse [c] = [if is_whitespace c then CHR '' '' else c]"
| "whitespace_collapse (c # d # cs) =
     (if is_whitespace c
      then (if is_whitespace d then whitespace_collapse (d # cs)
            else CHR '' '' # whitespace_collapse (d # cs))
      else c # whitespace_collapse (d # cs))"

definition normalize_label :: "string \<Rightarrow> string" where
  "normalize_label l = whitespace_collapse (map case_fold l)"

text \<open>
  Modelled from the spec: "later definitions with a duplicate key are ignored -- first
  definition wins", and the table is "built once" during block parsing (the core's
  table construction is missing from the sources).
\<close>

definition reference_of :: "link_definition \<Rightarrow> reference" where
  "reference_of d = \<lparr>ref_destination = destination d, ref_title = title d\<rparr>"

definition add_definition :: "reference_table \<Rightarrow> link_definition \<Rightarrow> reference_table" where
  "add_definition table d =
     (let key = normalize_label (label d)
      in case table key of
           Some first \<Rightarrow> table
         | None \<Rightarrow> table(key \<mapsto> reference_of d))"

definition reference_table_of :: "link_definition list \<Rightarrow> reference_table" where
  "reference_table_of ds = foldl add_definition Map.empty ds"

subsection \<open>Example definitions\<close>

definition other_def :: link_definition where
  "other_def = \<lparr>label = ''other'', destination = ''http://o.example'', title = None\<rparr>"

definition first_def :: link_definition where
  "first_def = \<lparr>label = ''Foo  Bar'', destination = ''http://a.example'', title = None\<rparr>"

definition later_def :: link_definition where
  "later_def = \<lparr>label = ''foo bar'', destination = ''http://b.example'', title = Some ''t''\<rparr>"

section \<open>Properties of the driver\<close>

subsection \<open>What \<open>fprintf\<close> prints for a format alone\<close>

lemma fprintf_plain: "CHR ''%'' \<notin> set s \<Longrightarrow> fprintf s = Some s"
  by (induction s) auto

lemma fprintf_length: "fprintf s = Some out \<Longrightarrow> length out \<le> length s"
proof (induction s arbitrary: out rule: fprintf.induct)
  case 1
  then show ?case by simp
next
  case (2 c cs)
  show ?case
  proof (cases "c = CHR ''%''")
    case True
    then obtain ds rest where cs: "cs = CHR ''%'' # ds"
      and rest: "fprintf ds = Some rest" "out = CHR ''%'' # rest"
      using 2(3) by (auto split: list.splits if_splits)
    have "length rest \<le> length ds"
      using 2(1)[OF True cs _ rest(1)] by simp
    then show ?thesis using cs rest by simp
  next
    case False
    then obtain rest where rest: "fprintf cs = Some rest" "out = c # rest"
      using 2(3) by auto
    have "length rest \<le> length cs"
      using 2(2)[OF False rest(1)] .
    then show ?thesis using rest by simp
  qed
qed

lemma fprintf_shorter:
  "fprintf s = Some out \<Longrightarrow> CHR ''%'' \<in> set s \<Longrightarrow> length out < length s"
proof (induction s arbitrary: out rule: fprintf.induct)
  case 1
  then show ?case by simp
next
  case (2 c cs)
  show ?case
  proof (cases "c = CHR ''%''")
    case True
    then obtain ds rest where cs: "cs = CHR ''%'' # ds"
      and rest: "fprintf ds = Some rest" "out = CHR ''%'' # rest"
      using 2(3) by (auto split: list.splits if_splits)
    have "length rest \<le> length ds"
      using fprintf_length[OF rest(1)] .
    then show ?thesis using cs rest by simp
  next
    case False
    then obtain rest where rest: "fprintf cs = Some rest" "out = c # rest"
      using 2(3) by auto
    have "CHR ''%'' \<in> set cs"
      using 2(4) False by auto
    then have "length rest < length cs"
      using 2(2)[OF False rest(1)] by simp
    then show ?thesis using rest by simp
  qed
qed

lemma fprintf_same_iff: "fprintf s = Some s \<longleftrightarrow> CHR ''%'' \<notin> set s"
proof
  assume "fprintf s = Some s"
  then show "CHR ''%'' \<notin> set s"
    using fprintf_shorter[of s s] by auto
next
  assume "CHR ''%'' \<notin> set s"
  then show "fprintf s = Some s"
    by (rule fprintf_plain)
qed

lemma fail_plain:
  "CHR ''%'' \<notin> set msg \<Longrightarrow>
   fail w msg = w\<lparr>stderr_text := stderr_text w @ msg, status := Returned (- 1)\<rparr>"
  by (simp add: fail_def fprintf_plain)


subsection \<open>Reading \<open>input.md\<close>\<close>

lemma size_t_nat: "size_t (int n) = n" "size_t (int n + 1) = Suc n"
  by (simp_all add: size_t_def nat_add_distrib)

lemma size_t_minus_one: "size_t (- 1) = 2 ^ 64 - 1"
  by (simp add: size_t_def)

lemma size_is_length:
  "ftell (fseek_end \<lparr>data = file, pos = 0, end_offset = int (length file)\<rparr>) = int (length file)"
  by (simp add: ftell_def fseek_end_def)

lemma fread_whole:
  "fread (map g [0..<Suc (length file)]) (length file)
     (fseek_set (fseek_end \<lparr>data = file, pos = 0, end_offset = int (length file)\<rparr>))
   = Some (file @ [g (length file)], \<lparr>data = file, pos = length file, end_offset = int (length file)\<rparr>)"
proof -
  have "map g [length file..<Suc (length file)] = [g (length file)]"
    by simp
  then show ?thesis
    by (simp add: fread_def fseek_set_def fseek_end_def Let_def drop_map del: upt_Suc)
qed

lemma store_terminator: "store (file @ [c]) (int (length file)) NUL = Some (file @ [NUL])"
  by (simp add: store_def)

lemma main_after_reading:
  assumes "input_md e = Some file" and "\<not> malloc_fails e"
    and "input_end e = int (length file)"
  shows "main C e =
     (let w = start\<lparr>converted := [file @ [NUL]]\<rparr>
      in if \<not> output_html_opens e then fail w ''Could not open output.html''
         else (case fprintf (r0 (C (file @ [NUL]))) of
                 None \<Rightarrow> w\<lparr>status := Undefined\<rparr>
               | Some out \<Rightarrow>
                   w\<lparr>written := Some out, freed := [R0, R1], status := Returned 0\<rparr>))"
  unfolding main_def Let_def
  using assms fread_whole[of "fresh e" "file"]
    store_terminator[of "file" "fresh e (length file)"]
  by (simp add: fopen_r_def malloc_def size_is_length size_t_nat)

lemma main_no_input:
  "input_md e = None \<Longrightarrow>
   main C e = start\<lparr>stderr_text := ''Could not open input.md'', status := Returned (- 1)\<rparr>"
  by (simp add: main_def fopen_r_def fail_plain start_def)

lemma main_no_memory:
  "input_md e = Some file \<Longrightarrow> malloc_fails e \<Longrightarrow>
   main C e =
     start\<lparr>stderr_text := ''Could not allocate memory for buffer'', status := Returned (- 1)\<rparr>"
  by (simp add: main_def fopen_r_def malloc_def fail_plain start_def Let_def)

subsection \<open>A run from the conversion on\<close>

lemma converted_fail: "converted (fail w msg) = converted w"
  by (simp add: fail_def split: option.splits)

lemma main_conversion:
  assumes "converted (main C e) = [buffer]"
  shows "main C e =
     (let w = start\<lparr>converted := [buffer]\<rparr>
      in if \<not> output_html_opens e then fail w ''Could not open output.html''
         else (case fprintf (r0 (C buffer)) of
                 None \<Rightarrow> w\<lparr>status := Undefined\<rparr>
               | Some out \<Rightarrow>
                   w\<lparr>written := Some out, freed := [R0, R1], status := Returned 0\<rparr>))"
  using assms unfolding main_def Let_def
  by (auto simp: start_def converted_fail split: option.splits if_splits)

lemma main_no_conversion:
  assumes "converted (main C e) = []"
  shows "written (main C e) = None \<and> freed (main C e) = [] \<and> status (main C e) \<noteq> Returned 0"
  using assms unfolding main_def Let_def
  by (auto simp: start_def fail_plain split: option.splits if_splits)

lemma main_converted_once:
  "converted (main C e) = [] \<or> (\<exists>buffer. converted (main C e) = [buffer])"
  unfolding main_def Let_def
  by (auto simp: start_def converted_fail split: option.splits if_splits)

lemma hello_converted: "converted (main C hello_env) = [''# Hello'' @ [NUL]]"
proof -
  have "input_md hello_env = Some ''# Hello''" "\<not> malloc_fails hello_env"
    "input_end hello_env = int (length ''# Hello'')"
    by (simp_all add: hello_env_def)
  then show ?thesis
    by (simp add: main_after_reading Let_def start_def converted_fail split: option.splits)
qed

subsection \<open>Runs on an input that is not a regular file read without error\<close>


lemma main_empty_fifo: "main C (fifo_env\<lparr>input_md := Some []\<rparr>) = start\<lparr>status := Undefined\<rparr>"
  by (simp add: main_def fifo_env_def hello_env_def fopen_r_def fseek_end_def fseek_set_def
      ftell_def malloc_def size_t_def fread_def store_def Let_def)

text \<open>
  When the stream delivers fewer bytes than \<open>ftell\<close> reported, the bytes of the fresh
  block that \<open>fread\<close> did not overwrite stand before the terminator.
\<close>

lemma main_short_read: "converted (main C short_read_env) = [''# ?????'' @ [NUL]]"
proof -
  have "map (\<lambda>_. CHR ''?'') [0..<8] = ''????????''"
    by (simp add: upt_rec)
  then show ?thesis
    by (simp add: main_def short_read_env_def hello_env_def fopen_r_def fseek_end_def
        fseek_set_def ftell_def malloc_def size_t_def fread_def store_def start_def Let_def
        converted_fail split: option.splits)
qed

subsection \<open>The exit status\<close>

lemma main_status_failure:
  "status (main C e) = Returned (- 1) \<longleftrightarrow>
     input_md e = None \<or> malloc_fails e \<or>
     (converted (main C e) \<noteq> [] \<and> \<not> output_html_opens e)"
proof (cases "input_md e")
  case None
  then show ?thesis by (simp add: main_no_input)
next
  case (Some contents)
  show ?thesis
  proof (cases "malloc_fails e")
    case True
    then show ?thesis using Some by (simp add: main_no_memory)
  next
    case False
    show ?thesis
    proof (cases "converted (main C e)")
      case Nil
      then show ?thesis
        using Some False unfolding main_def Let_def
        by (auto simp: start_def fopen_r_def malloc_def converted_fail
            split: option.splits if_splits)
    next
      case (Cons buffer bs)
      then have one: "converted (main C e) = [buffer]"
        using main_converted_once[of C e] by auto
      show ?thesis
        using Some False one
        by (subst main_conversion[OF one])
           (simp add: main_conversion[OF one] fail_plain Let_def split: option.splits)
    qed
  qed
qed

lemma main_status_success:
  "status (main C e) = Returned 0 \<longleftrightarrow>
     (\<exists>buffer. converted (main C e) = [buffer] \<and> output_html_opens e \<and>
        fprintf (r0 (C buffer)) \<noteq> None)"
proof (cases "converted (main C e)")
  case Nil
  then show ?thesis using main_no_conversion[of C e] by simp
next
  case (Cons buffer bs)
  then have one: "converted (main C e) = [buffer]"
    using main_converted_once[of C e] by auto
  have "status (main C e) = Returned 0 \<longleftrightarrow>
        output_html_opens e \<and> fprintf (r0 (C buffer)) \<noteq> None"
    by (subst main_conversion[OF one]) (auto simp: fail_plain Let_def split: option.splits)
  then show ?thesis using one by simp
qed

lemma main_not_converted:
  "input_md e = None \<or> malloc_fails e \<Longrightarrow> converted (main C e) = []"
  by (cases "input_md e") (auto simp: main_no_input main_no_memory start_def)

text \<open>
  Claim C10 says that the driver exits with 0 whenever none of the three failures
  occurs. The model agrees on every run that reaches the conversion and whose
  \<open>fprintf\<close> call is defined (\<open>main_status_failure\<close>, \<open>main_status_success\<close>,
  \<open>main_not_converted\<close>). But the driver
  passes the returned HTML as the format: with \<open>input.md\<close> and \<open>output.html\<close> opened, the
  buffer allocated and the HTML \<open><p>%s</p>\<close>, the call \<open>fprintf(fout, r.r0)\<close> fetches an
  argument that was never passed, and the run has undefined behaviour instead of
  the exit status 0.
\<close>

theorem main_percent_undefined:
  "input_md hello_env \<noteq> None \<and> \<not> malloc_fails hello_env \<and> output_html_opens hello_env \<and>
   status (main percent_html hello_env) = Undefined"
proof -
  have env: "input_md hello_env = Some ''# Hello''" "\<not> malloc_fails hello_env"
    "input_end hello_env = int (length ''# Hello'')" "output_html_opens hello_env"
    by (simp_all add: hello_env_def)
  have "fprintf (r0 (percent_html (''# Hello'' @ [NUL]))) = None"
    by (simp add: percent_html_def)
  then have "status (main percent_html hello_env) = Undefined"
    using env by (simp add: main_after_reading[OF env(1,2,3)] Let_def)
  then show ?thesis using env by simp
qed

subsection \<open>The buffer passed to the conversion\<close>




subsection \<open>What is written to \<open>output.html\<close>\<close>

text \<open>
  Claim C3: in a run in which the conversion is called, on whatever buffer the driver
  read, and \<open>output.html\<close> is opened, the bytes printed to \<open>output.html\<close> are the returned
  HTML string \<open>r.r0\<close> exactly when that string holds no \<open>%\<close>. With a \<open>%\<close> in it the driver
  prints either a shorter text (each \<open>%%\<close> printed as one \<open>%\<close>) or nothing that is
  defined.
\<close>

theorem main_writes_html_iff_no_percent:
  assumes "converted (main C e) = [buffer]" and "output_html_opens e"
  shows "written (main C e) = Some (r0 (C buffer)) \<longleftrightarrow> CHR ''%'' \<notin> set (r0 (C buffer))"
proof (cases "fprintf (r0 (C buffer))")
  case None
  then have "written (main C e) = None"
    using assms(2) by (subst main_conversion[OF assms(1)]) (simp add: Let_def start_def)
  moreover have "CHR ''%'' \<in> set (r0 (C buffer))"
    using None fprintf_plain by fastforce
  ultimately show ?thesis by simp
next
  case (Some out)
  then have "written (main C e) = Some out"
    using assms(2) by (subst main_conversion[OF assms(1)]) (simp add: Let_def)
  then show ?thesis
    using Some fprintf_same_iff[of "r0 (C buffer)"] by auto
qed

theorem main_writes_html_iff_no_percent_witness:
  "converted (main hello_html hello_env) = [''# Hello'' @ [NUL]] \<and>
   output_html_opens hello_env \<and>
   CHR ''%'' \<notin> set (r0 (hello_html (''# Hello'' @ [NUL]))) \<and>
   written (main hello_html hello_env) = Some (r0 (hello_html (''# Hello'' @ [NUL])))"
  using main_writes_html_iff_no_percent[of hello_html hello_env "''# Hello'' @ [NUL]"]
    hello_converted[of hello_html]
  by (simp add: hello_env_def hello_html_def)

text \<open>
  The same on a regular file that is read without error, where the buffer is the
  file's bytes and the terminator.
\<close>

lemma main_writes_html_regular_file:
  assumes "input_md e = Some contents" and "\<not> malloc_fails e"
    and "input_end e = int (length contents)" and "output_html_opens e"
  shows "written (main C e) = Some (r0 (C (contents @ [NUL]))) \<longleftrightarrow>
         CHR ''%'' \<notin> set (r0 (C (contents @ [NUL])))"
proof (cases "fprintf (r0 (C (contents @ [NUL])))")
  case None
  then have "written (main C e) = None"
    using assms by (simp add: main_after_reading Let_def start_def)
  moreover have "CHR ''%'' \<in> set (r0 (C (contents @ [NUL])))"
    using None fprintf_plain by fastforce
  ultimately show ?thesis by simp
next
  case (Some out)
  then have "written (main C e) = Some out"
    using assms by (simp add: main_after_reading Let_def)
  then show ?thesis
    using Some fprintf_same_iff[of "r0 (C (contents @ [NUL]))"] by auto
qed

section \<open>Properties of the reference table\<close>

lemma example_keys:
  "normalize_label ''Foo  Bar'' = ''foo bar''"
  "normalize_label ''foo bar'' = ''foo bar''"
  "normalize_label ''other'' = ''other''"
  by code_simp+

subsection \<open>One definition at a time\<close>

lemma add_definition_keeps: "table k = Some r \<Longrightarrow> add_definition table d k = Some r"
  by (auto simp: add_definition_def Let_def split: option.splits)

lemma add_definition_other:
  "normalize_label (label d) \<noteq> k \<Longrightarrow> add_definition table d k = table k"
  by (auto simp: add_definition_def Let_def split: option.splits)

lemma add_definition_new:
  "table (normalize_label (label d)) = None \<Longrightarrow>
   add_definition table d (normalize_label (label d)) = Some (reference_of d)"
  by (simp add: add_definition_def Let_def)

subsection \<open>The whole table\<close>

lemma foldl_add_keeps:
  "table k = Some r \<Longrightarrow> foldl add_definition table ds k = Some r"
  by (induction ds arbitrary: table) (simp_all add: add_definition_keeps)

lemma foldl_add_other:
  "\<forall>d \<in> set ds. normalize_label (label d) \<noteq> k \<Longrightarrow>
   foldl add_definition table ds k = table k"
  by (induction ds arbitrary: table) (simp_all add: add_definition_other)

lemma later_definition_ignored:
  "reference_table_of ds k = Some r \<Longrightarrow> reference_table_of (ds @ [d]) k = Some r"
  by (simp add: reference_table_of_def add_definition_keeps)

text \<open>
  Claim C7: when several definitions have labels that normalise to the same key, the
  table maps the key to the destination and title of the first of them. Here \<open>first\<close>
  is the first definition with its key (no definition before it has that key), and
  \<open>later\<close> is whatever follows, duplicates of the key included: none of them changes
  the entry.
\<close>

theorem first_definition_wins:
  assumes "\<forall>d \<in> set before. normalize_label (label d) \<noteq> normalize_label (label first)"
  shows "reference_table_of (before @ first # later) (normalize_label (label first)) =
         Some (reference_of first)"
proof -
  let ?k = "normalize_label (label first)"
  have "foldl add_definition Map.empty before ?k = None"
    using foldl_add_other[OF assms] by simp
  then have "add_definition (foldl add_definition Map.empty before) first ?k =
             Some (reference_of first)"
    by (rule add_definition_new)
  then show ?thesis
    by (simp add: reference_table_of_def foldl_add_keeps)
qed

theorem first_definition_wins_witness:
  "normalize_label (label other_def) \<noteq> normalize_label (label first_def) \<and>
   normalize_label (label later_def) = normalize_label (label first_def) \<and>
   reference_table_of [other_def, first_def, later_def] ''foo bar'' =
     Some \<lparr>ref_destination = ''http://a.example'', ref_title = None\<rparr>"
  using first_definition_wins[of "[other_def]" first_def "[later_def]"]
  by (simp add: first_def_def other_def_def later_def_def example_keys reference_of_def)

end
